theory Spec2Isabelle
  imports Complex_Main
begin

section \<open>JavaScript values\<close>

text \<open>
  The handlers receive a decoded JSON body and a decoded JSON reply of the prediction
  service, and they only read properties, test truthiness and copy values. A value is
  therefore a JSON value or \<open>undefined\<close>. A number stands for the value it denotes; the
  handlers never compute with numbers, and JSON carries neither NaN nor an infinity.
  The entries of an object are kept in the order in which \<open>for ... in\<close> enumerates them.
\<close>

datatype jsval =
    JUndefined
  | JNull
  | JBool bool
  | JNum real
  | JStr string
  | JArr "jsval list"
  | JObj "(string \<times> jsval) list"

text \<open>Truthiness, as \<open>!x\<close>, \<open>x && y\<close>, \<open>x || y\<close> and \<open>if (x)\<close> test it.\<close>

fun truthy :: "jsval \<Rightarrow> bool" where
  "truthy JUndefined = False"
| "truthy JNull = False"
| "truthy (JBool b) = b"
| "truthy (JNum n) = (n \<noteq> 0)"
| "truthy (JStr s) = (s \<noteq> [])"
| "truthy (JArr xs) = True"
| "truthy (JObj kvs) = True"

text \<open>Reading a property of \<open>undefined\<close> or \<open>null\<close> throws a TypeError.\<close>

fun nullish :: "jsval \<Rightarrow> bool" where
  "nullish JUndefined = True"
| "nullish JNull = True"
| "nullish v = False"

datatype js_error = TypeError

text \<open>
  A template literal converts each interpolated value to text and throws a TypeError
  where that is impossible. Among decoded JSON values these are the objects with an
  entry \<open>toString\<close> (it hides the inherited method and is not callable, and the inherited
  \<open>valueOf\<close> returns the object itself) and the arrays with such an element (\<open>join\<close> converts
  every element but \<open>undefined\<close> and \<open>null\<close>). Every other value has a text.
\<close>

fun stringable :: "jsval \<Rightarrow> bool" where
  "stringable (JObj kvs) = (map_of kvs ''toString'' = None)"
| "stringable (JArr xs) = list_all stringable xs"
| "stringable v = True"

text \<open>The message of the TypeError thrown there, as Node's engine words it.\<close>

definition TypeError_message :: string where
  "TypeError_message = ''Cannot convert object to primitive value''"

text \<open>
  \<open>console.log\<close> with further arguments reads its first argument as a format: it scans
  the text for a percent sign and the character after it, and the first of \<open>%s\<close>, \<open>%j\<close>,
  \<open>%d\<close>, \<open>%O\<close>, \<open>%o\<close>, \<open>%i\<close>, \<open>%f\<close>, \<open>%c\<close> takes the next argument; any other pair is
  skipped. \<open>first_spec\<close> gives the specifier that takes the one further argument.
\<close>

fun first_spec :: "string \<Rightarrow> char option" where
  "first_spec (a # c # rest) =
     (if a = CHR ''%'' then (if c \<in> set ''sjdOoifc'' then Some c else first_spec rest)
      else first_spec (c # rest))"
| "first_spec s = None"

fun first_Some :: "'a option list \<Rightarrow> 'a option" where
  "first_Some [] = None"
| "first_Some (None # os) = first_Some os"
| "first_Some (Some x # os) = Some x"

text \<open>
  The specifier in the text of a value that has one. Only strings bring a percent sign:
  the texts of numbers, booleans, \<open>null\<close>, \<open>undefined\<close> and objects have none, and the
  elements of an array are joined by commas, so that a percent sign at the end of an
  element pairs with the comma (and with the colon that follows the value in the log
  texts of the handlers).
\<close>

fun spec_of :: "jsval \<Rightarrow> char option" where
  "spec_of (JStr s) = first_spec s"
| "spec_of (JArr xs) = first_Some (map spec_of xs)"
| "spec_of v = None"

text \<open>
  The log line \<open>console.log(`... ${userId}:`, req.body)\<close> throws a TypeError when \<open>userId\<close>
  has no text, and when its text makes \<open>console.log\<close> convert the body to a number
  (\<open>%d\<close> by \<open>Number\<close>, \<open>%i\<close> by \<open>parseInt\<close>, \<open>%f\<close> by \<open>parseFloat\<close>) while the body has no
  text. The other specifiers inspect the body or serialise it and do not throw.
\<close>

definition log_received_throws :: "jsval \<Rightarrow> jsval \<Rightarrow> bool" where
  "log_received_throws userId body =
     (if \<not> stringable userId then True
      else case spec_of userId of
             Some c \<Rightarrow> c \<in> set ''dif'' \<and> \<not> stringable body
           | None \<Rightarrow> False)"

text \<open>Array indices and string positions as property names: decimal, no leading zero.\<close>

fun show_nat :: "nat \<Rightarrow> string" where
  "show_nat n =
     (if n < 10 then [''0123456789'' ! n]
      else show_nat (n div 10) @ [''0123456789'' ! (n mod 10)])"

text \<open>
  The enumerable own properties of a value, in enumeration order: the entries of an
  object, the elements of an array and the characters of a string under their
  indices, nothing for the other primitives.
\<close>

fun own_entries :: "jsval \<Rightarrow> (string \<times> jsval) list" where
  "own_entries (JObj kvs) = kvs"
| "own_entries (JArr xs) = zip (map show_nat [0..<length xs]) xs"
| "own_entries (JStr s) = zip (map show_nat [0..<length s]) (map (\<lambda>c. JStr [c]) s)"
| "own_entries v = []"

text \<open>
  \<open>v.k\<close> and \<open>v[k]\<close> for a value that is neither \<open>undefined\<close> nor \<open>null\<close>: the own
  property, or \<open>undefined\<close>. The handlers read only the names \<open>hr\<close>, \<open>hrv\<close>, \<open>bt\<close>,
  \<open>spo2\<close>, \<open>userId\<close>, \<open>stress_level\<close>, \<open>probabilities\<close> and enumerated keys, so inherited
  properties such as \<open>length\<close> play no part.
\<close>

definition get_prop :: "jsval \<Rightarrow> string \<Rightarrow> jsval" where
  "get_prop v k = (case map_of (own_entries v) k of Some x \<Rightarrow> x | None \<Rightarrow> JUndefined)"

text \<open>\<open>obj[k] = x\<close>: an existing entry keeps its place, a new one goes last.\<close>

fun set_prop :: "(string \<times> jsval) list \<Rightarrow> string \<Rightarrow> jsval \<Rightarrow> (string \<times> jsval) list" where
  "set_prop [] k x = [(k, x)]"
| "set_prop ((k', y) # kvs) k x =
     (if k' = k then (k, x) # kvs else (k', y) # set_prop kvs k x)"

text \<open>
  A template literal is kept as its parts, literal text and interpolated values, so
  that the conversion of an arbitrary value to text need not be modelled.
\<close>

datatype part = Lit string | Hole jsval

type_synonym template = "part list"

section \<open>The environment of a request\<close>

datatype http_method = POST | PATCH

record http_call =
  call_method :: http_method
  call_url :: template
  call_data :: jsval

text \<open>
  An axios call resolves with the reply's \<open>data\<close>, or rejects (network error or a
  status outside 2xx) with an error that has a \<open>message\<close> and, when the server
  answered, a \<open>response\<close> with its \<open>data\<close>.
\<close>

record axios_error =
  err_message :: string
  err_response :: "jsval option"

datatype axios_result = Resolved jsval | Rejected axios_error

text \<open>
  The \<open>catch\<close> blocks read the \<open>message\<close> and the \<open>response\<close> of whatever they catch. A
  TypeError caught there has the engine's message and no \<open>response\<close>.
\<close>

definition caught_TypeError :: axios_error where
  "caught_TypeError = \<lparr>err_message = TypeError_message, err_response = None\<rparr>"

text \<open>
  The environment of a request: what each axios call meets, the text the clock gives
  (\<open>new Date().toISOString()\<close>), and the two entries of \<open>process.env\<close>. An entry of
  \<open>process.env\<close> is a string (\<open>JStr\<close>) or \<open>undefined\<close>, so it always has a text.
\<close>

record env =
  axios :: "http_call \<Rightarrow> axios_result"
  now_iso :: string
  FIREBASE_API_KEY :: jsval
  FIREBASE_PROJECT_ID :: jsval

datatype event =
    Outbound http_call
  | ConsoleLog template "jsval list"
  | ConsoleError template "jsval list"

record request =
  req_method :: string
  req_body :: jsval

text \<open>A response: the status, the headers the handler sets itself, and the body sent.\<close>

record response =
  res_status :: nat
  res_headers :: "(string \<times> jsval) list"
  res_body :: jsval

text \<open>
  A run of a handler: the response it sends, or the error it throws, and what it did on
  the way, in order: outbound calls and console output.
\<close>

type_synonym run = "(js_error + response) \<times> event list"

section \<open>The prediction relay: src/api/index.js\<close>

definition RENDER_API_ENDPOINT :: template where
  "RENDER_API_ENDPOINT = [Lit ''https://aurasense-api.onrender.com/predict'']"

text \<open>
  The loop \<open>for (const key in data.probabilities)\<close> of writeToFirestore. The assignment
  \<open>probFields[key] = {...}\<close> for the key \<open>__proto__\<close> goes to the inherited setter: it makes
  the object the prototype of \<open>probFields\<close> and adds no entry.
\<close>

fun probFields_loop :: "jsval \<Rightarrow> string list \<Rightarrow> (string \<times> jsval) list \<Rightarrow> (string \<times> jsval) list" where
  "probFields_loop probabilities [] probFields = probFields"
| "probFields_loop probabilities (key # keys) probFields =
     probFields_loop probabilities keys
       (if key = ''__proto__'' then probFields
        else set_prop probFields key (JObj [(''doubleValue'', get_prop probabilities key)]))"

definition firestore_fields :: "env \<Rightarrow> jsval \<Rightarrow> jsval" where
  "firestore_fields e data =
     (let fields =
            [(''stress_level'', JObj [(''stringValue'', get_prop data ''stress_level'')]),
             (''hr'', JObj [(''doubleValue'', get_prop data ''hr'')]),
             (''timestamp'', JObj [(''timestampValue'', JStr (now_iso e))])]
      in if truthy (get_prop data ''probabilities'') then
           (let probFields =
                  probFields_loop (get_prop data ''probabilities'')
                    (map fst (own_entries (get_prop data ''probabilities''))) []
            in JObj (set_prop fields ''probabilities''
                 (JObj [(''mapValue'', JObj [(''fields'', JObj probFields)])])))
         else JObj fields)"

text \<open>
  writeToFirestore, in two steps: the request it builds (document path, field map,
  URL with the API key) and the function itself. The document path is built before
  the \<open>try\<close> block, so a \<open>userId\<close> without a text makes the function throw; a rejected call
  is caught and logged inside.
\<close>

definition firestore_call :: "env \<Rightarrow> jsval \<Rightarrow> jsval \<Rightarrow> http_call" where
  "firestore_call e userId data =
     (let docPath =
            [Lit ''projects/'', Hole (FIREBASE_PROJECT_ID e),
             Lit ''/databases/(default)/documents/user_display/'', Hole userId,
             Lit ''/readings/latest''];
          fields = firestore_fields e data
      in \<lparr>call_method = PATCH,
           call_url = [Lit ''https://firestore.googleapis.com/v1/''] @ docPath
                      @ [Lit ''?key='', Hole (FIREBASE_API_KEY e)],
           call_data = JObj [(''fields'', fields)]\<rparr>)"

definition writeToFirestore :: "env \<Rightarrow> jsval \<Rightarrow> jsval \<Rightarrow> js_error + event list" where
  "writeToFirestore e userId data =
     (if \<not> stringable userId then Inl TypeError
      else
        (let call = firestore_call e userId data
         in case axios e call of
              Resolved r \<Rightarrow>
                Inr [Outbound call,
                     ConsoleLog [Lit ''[Vercel] Wrote to Firestore for user '', Hole userId] []]
            | Rejected err \<Rightarrow>
                Inr [Outbound call,
                     ConsoleError [Lit ''[Vercel] Firestore write error:'']
                       [case err_response err of
                          Some d \<Rightarrow> d
                        | None \<Rightarrow> JStr (err_message err)]]))"

definition apiPayload :: "jsval \<Rightarrow> jsval \<Rightarrow> jsval \<Rightarrow> jsval" where
  "apiPayload hr hrv bt =
     JObj [(''mode'', JStr ''raw''),
           (''raw'', JObj [(''HR'', hr), (''HRV'', hrv), (''BT'', bt)])]"

text \<open>
  The \<open>catch\<close> block of the handler, after the events \<open>done\<close> so far. It catches a
  rejected call to the prediction service and whatever else is thrown inside the \<open>try\<close>.
\<close>

definition api_catch :: "event list \<Rightarrow> axios_error \<Rightarrow> run" where
  "api_catch done err =
     (Inr \<lparr>res_status = 500, res_headers = [],
           res_body = JObj [(''error'', JStr ''API call failed'')]\<rparr>,
      done
      @ [ConsoleError [Lit ''[Vercel] Error calling prediction API:''] [JStr (err_message err)]]
      @ (case err_response err of
           Some d \<Rightarrow> [ConsoleError [Lit ''API error data:''] [d]]
         | None \<Rightarrow> []))"

text \<open>
  The handler. The first \<open>console.log\<close> stands before the \<open>try\<close>: when it throws, the
  handler throws, with no response and no call. The second one has a single argument
  and stands inside the \<open>try\<close>: a prediction without a text ends in the \<open>catch\<close> block.
\<close>

definition api_handler :: "env \<Rightarrow> request \<Rightarrow> run" where
  "api_handler e req =
     (if req_method req \<noteq> ''POST'' then
        (Inr \<lparr>res_status = 405, res_headers = [(''Allow'', JArr [JStr ''POST''])],
              res_body = JStr ''Method Not Allowed''\<rparr>, [])
      else if nullish (req_body req) then (Inl TypeError, [])
      else
        (let hr = get_prop (req_body req) ''hr'';
             hrv = get_prop (req_body req) ''hrv'';
             bt = get_prop (req_body req) ''bt'';
             userId = get_prop (req_body req) ''userId''
         in if \<not> truthy hr \<or> \<not> truthy userId then
              (Inr \<lparr>res_status = 400, res_headers = [],
                    res_body = JObj [(''error'', JStr ''Missing required fields: hr, userId'')]\<rparr>,
               [])
            else if log_received_throws userId (req_body req) then (Inl TypeError, [])
            else
              (let received =
                     ConsoleLog [Lit ''[Vercel] Received data for user '', Hole userId, Lit '':'']
                       [req_body req];
                   call = \<lparr>call_method = POST, call_url = RENDER_API_ENDPOINT,
                           call_data = apiPayload hr hrv bt\<rparr>
               in case axios e call of
                    Resolved data \<Rightarrow>
                      if truthy data \<and> truthy (get_prop data ''stress_level'') then
                        (let prediction = get_prop data ''stress_level'';
                             probabilities =
                               (if truthy (get_prop data ''probabilities'')
                                then get_prop data ''probabilities'' else JNull)
                         in if \<not> stringable prediction then
                              api_catch [received, Outbound call] caught_TypeError
                            else
                              (let predicted =
                                     ConsoleLog
                                       [Lit ''[Vercel] API Prediction: '', Hole prediction] []
                               in case writeToFirestore e userId
                                         (JObj [(''stress_level'', prediction),
                                                (''probabilities'', probabilities),
                                                (''hr'', hr)]) of
                                    Inl thrown \<Rightarrow>
                                      api_catch [received, Outbound call, predicted]
                                        caught_TypeError
                                  | Inr written \<Rightarrow>
                                      (Inr \<lparr>res_status = 200, res_headers = [],
                                            res_body = JObj [(''success'', JBool True),
                                                             (''prediction'', prediction)]\<rparr>,
                                       [received, Outbound call, predicted] @ written)))
                      else
                        (Inr \<lparr>res_status = 500, res_headers = [],
                              res_body = JObj [(''error'', JStr ''Bad API response'')]\<rparr>,
                         [received, Outbound call,
                          ConsoleError [Lit ''[Vercel] Unexpected API response:''] [data]])
                  | Rejected err \<Rightarrow> api_catch [received, Outbound call] err)))"

section \<open>The prediction relay with the document at user_display/{userId}/latest\<close>

text \<open>
  The relay module whose header calls the function the "brain" or "glue" of the
  project (src/index.js): the same control flow, the document at
  \<open>user_display/{userId}/latest\<close>, and other texts in its logs and error bodies. The field
  map and the prediction request are built alike. The two remaining copies of the relay
  (the second module of src/api/index.js and src/unnamed/part_000) follow the same control
  flow with the statuses and error bodies of this one; they differ in the texts they log
  and in the document path (\<open>readings/latest\<close>), and the former writes with \<open>axios.post\<close>.
\<close>

definition index_firestore_call :: "env \<Rightarrow> jsval \<Rightarrow> jsval \<Rightarrow> http_call" where
  "index_firestore_call e userId data =
     (let docPath =
            [Lit ''projects/'', Hole (FIREBASE_PROJECT_ID e),
             Lit ''/databases/(default)/documents/user_display/'', Hole userId,
             Lit ''/latest''];
          fields = firestore_fields e data
      in \<lparr>call_method = PATCH,
           call_url = [Lit ''https://firestore.googleapis.com/v1/''] @ docPath
                      @ [Lit ''?key='', Hole (FIREBASE_API_KEY e)],
           call_data = JObj [(''fields'', fields)]\<rparr>)"

definition index_writeToFirestore :: "env \<Rightarrow> jsval \<Rightarrow> jsval \<Rightarrow> js_error + event list" where
  "index_writeToFirestore e userId data =
     (if \<not> stringable userId then Inl TypeError
      else
        (let call = index_firestore_call e userId data
         in case axios e call of
              Resolved r \<Rightarrow>
                Inr [Outbound call,
                     ConsoleLog [Lit ''[Vercel Brain] Wrote to Firestore for user '', Hole userId]
                       []]
            | Rejected err \<Rightarrow>
                Inr [Outbound call,
                     ConsoleError [Lit ''[Vercel Brain] Error writing to Firestore:'']
                       [case err_response err of
                          Some d \<Rightarrow> d
                        | None \<Rightarrow> JStr (err_message err)]]))"

definition index_catch :: "event list \<Rightarrow> axios_error \<Rightarrow> run" where
  "index_catch done err =
     (Inr \<lparr>res_status = 500, res_headers = [],
           res_body = JObj [(''error'', JStr ''Internal - API Call Failed'')]\<rparr>,
      done
      @ [ConsoleError [Lit ''[Vercel Brain] Error calling prediction API:'']
           [JStr (err_message err)]]
      @ (case err_response err of
           Some d \<Rightarrow> [ConsoleError [Lit ''API Error Data:''] [d]]
         | None \<Rightarrow> []))"

definition index_handler :: "env \<Rightarrow> request \<Rightarrow> run" where
  "index_handler e req =
     (if req_method req \<noteq> ''POST'' then
        (Inr \<lparr>res_status = 405, res_headers = [(''Allow'', JArr [JStr ''POST''])],
              res_body = JStr ''Method Not Allowed''\<rparr>, [])
      else if nullish (req_body req) then (Inl TypeError, [])
      else
        (let hr = get_prop (req_body req) ''hr'';
             hrv = get_prop (req_body req) ''hrv'';
             bt = get_prop (req_body req) ''bt'';
             userId = get_prop (req_body req) ''userId''
         in if \<not> truthy hr \<or> \<not> truthy userId then
              (Inr \<lparr>res_status = 400, res_headers = [],
                    res_body = JObj [(''error'', JStr ''Missing required fields: hr, userId'')]\<rparr>,
               [])
            else if log_received_throws userId (req_body req) then (Inl TypeError, [])
            else
              (let received =
                     ConsoleLog
                       [Lit ''[Vercel Brain] Received data for user '', Hole userId, Lit '':'']
                       [req_body req];
                   call = \<lparr>call_method = POST, call_url = RENDER_API_ENDPOINT,
                           call_data = apiPayload hr hrv bt\<rparr>
               in case axios e call of
                    Resolved data \<Rightarrow>
                      if truthy data \<and> truthy (get_prop data ''stress_level'') then
                        (let prediction = get_prop data ''stress_level'';
                             probabilities =
                               (if truthy (get_prop data ''probabilities'')
                                then get_prop data ''probabilities'' else JNull)
                         in if \<not> stringable prediction then
                              index_catch [received, Outbound call] caught_TypeError
                            else
                              (let predicted =
                                     ConsoleLog
                                       [Lit ''[Vercel Brain] API Success. Prediction: '',
                                        Hole prediction] []
                               in case index_writeToFirestore e userId
                                         (JObj [(''stress_level'', prediction),
                                                (''probabilities'', probabilities),
                                                (''hr'', hr)]) of
                                    Inl thrown \<Rightarrow>
                                      index_catch [received, Outbound call, predicted]
                                        caught_TypeError
                                  | Inr written \<Rightarrow>
                                      (Inr \<lparr>res_status = 200, res_headers = [],
                                            res_body = JObj [(''success'', JBool True),
                                                             (''prediction'', prediction)]\<rparr>,
                                       [received, Outbound call, predicted] @ written)))
                      else
                        (Inr \<lparr>res_status = 500, res_headers = [],
                              res_body = JObj [(''error'', JStr ''Internal - Bad API Response'')]\<rparr>,
                         [received, Outbound call,
                          ConsoleError
                            [Lit ''[Vercel Brain] API response was successful but format was unexpected:'']
                            [data]])
                  | Rejected err \<Rightarrow> index_catch [received, Outbound call] err)))"

section \<open>The raw upload: src/unnamed/part_001\<close>

text \<open>
  This variant stores the reading itself. The destructuring default gives \<open>userId\<close> the
  value \<open>"user1"\<close> when the body has none (only for \<open>undefined\<close>, not for \<open>null\<close>); the
  credentials are read from the process environment on every request. The document
  path is built inside the \<open>try\<close>: a \<open>userId\<close> without a text ends in the \<open>catch\<close> block,
  before any call. The \<open>catch\<close> block logs \<open>error.response?.data || error.message\<close>.
\<close>

definition upload_catch :: "event list \<Rightarrow> axios_error \<Rightarrow> run" where
  "upload_catch done err =
     (Inr \<lparr>res_status = 500, res_headers = [],
           res_body = JObj [(''error'', JStr ''Failed to upload data'')]\<rparr>,
      done
      @ [ConsoleError [Lit ''Firestore error:'']
           [case err_response err of
              Some d \<Rightarrow> if truthy d then d else JStr (err_message err)
            | None \<Rightarrow> JStr (err_message err)]])"

text \<open>The request of the upload: document path, field map and URL with the API key.\<close>

definition upload_call :: "env \<Rightarrow> jsval \<Rightarrow> jsval \<Rightarrow> jsval \<Rightarrow> jsval \<Rightarrow> http_call" where
  "upload_call e hr spo2 hrv userId =
     (let docPath =
            [Lit ''projects/'', Hole (FIREBASE_PROJECT_ID e),
             Lit ''/databases/(default)/documents/user_display/'', Hole userId,
             Lit ''/readings/latest''];
          fields =
            JObj [(''hr'', JObj [(''doubleValue'', hr)]),
                  (''spo2'', JObj [(''doubleValue'', spo2)]),
                  (''hrv'', JObj [(''doubleValue'', hrv)]),
                  (''timestamp'', JObj [(''timestampValue'', JStr (now_iso e))])]
      in \<lparr>call_method = POST,
           call_url = [Lit ''https://firestore.googleapis.com/v1/''] @ docPath
                      @ [Lit ''?key='', Hole (FIREBASE_API_KEY e)],
           call_data = JObj [(''fields'', fields)]\<rparr>)"

definition handler :: "env \<Rightarrow> request \<Rightarrow> run" where
  "handler e req =
     (if req_method req \<noteq> ''POST'' then
        (Inr \<lparr>res_status = 405, res_headers = [],
              res_body = JObj [(''message'', JStr ''Method Not Allowed'')]\<rparr>, [])
      else if nullish (req_body req) then (Inl TypeError, [])
      else
        (let hr = get_prop (req_body req) ''hr'';
             spo2 = get_prop (req_body req) ''spo2'';
             hrv = get_prop (req_body req) ''hrv'';
             userId = (if get_prop (req_body req) ''userId'' = JUndefined then JStr ''user1''
                       else get_prop (req_body req) ''userId'')
         in if \<not> truthy (FIREBASE_PROJECT_ID e) \<or> \<not> truthy (FIREBASE_API_KEY e) then
              (Inr \<lparr>res_status = 500, res_headers = [],
                    res_body = JObj [(''error'', JStr ''Firebase credentials missing'')]\<rparr>, [])
            else if \<not> stringable userId then upload_catch [] caught_TypeError
            else
              (let call = upload_call e hr spo2 hrv userId
               in case axios e call of
                    Resolved r \<Rightarrow>
                      (Inr \<lparr>res_status = 200, res_headers = [],
                            res_body = JObj [(''success'', JBool True),
                                             (''message'', JStr ''Data uploaded'')]\<rparr>,
                       [Outbound call])
                  | Rejected err \<Rightarrow> upload_catch [Outbound call] err)))"

section \<open>What a run shows\<close>

fun outbound_calls :: "event list \<Rightarrow> http_call list" where
  "outbound_calls [] = []"
| "outbound_calls (Outbound c # t) = c # outbound_calls t"
| "outbound_calls (ev # t) = outbound_calls t"

text \<open>A call goes to the document store when its URL starts with the store's address.\<close>

definition is_store_call :: "http_call \<Rightarrow> bool" where
  "is_store_call c =
     (case call_url c of
        Lit s # rest \<Rightarrow> s = ''https://firestore.googleapis.com/v1/''
      | _ \<Rightarrow> False)"

definition is_prediction_call :: "http_call \<Rightarrow> bool" where
  "is_prediction_call c = (call_url c = RENDER_API_ENDPOINT)"

definition store_writes :: "event list \<Rightarrow> http_call list" where
  "store_writes t = filter is_store_call (outbound_calls t)"

definition prediction_calls :: "event list \<Rightarrow> http_call list" where
  "prediction_calls t = filter is_prediction_call (outbound_calls t)"

text \<open>
  A request passes validation when it is a POST whose body can be destructured and
  whose \<open>hr\<close> and \<open>userId\<close> are truthy.
\<close>

definition passes_validation :: "request \<Rightarrow> bool" where
  "passes_validation req =
     (req_method req = ''POST'' \<and> \<not> nullish (req_body req)
      \<and> truthy (get_prop (req_body req) ''hr'')
      \<and> truthy (get_prop (req_body req) ''userId''))"

text \<open>The call to the prediction service for a body, as the relay handlers build it.\<close>

definition prediction_request :: "jsval \<Rightarrow> http_call" where
  "prediction_request body =
     \<lparr>call_method = POST, call_url = RENDER_API_ENDPOINT,
      call_data = apiPayload (get_prop body ''hr'') (get_prop body ''hrv'') (get_prop body ''bt'')\<rparr>"

section \<open>Sample requests and environments\<close>

definition reading_u1 :: request where
  "reading_u1 =
     \<lparr>req_method = ''POST'',
      req_body = JObj [(''hr'', JNum 72), (''hrv'', JNum 45), (''bt'', JNum 36.6),
                       (''userId'', JStr ''u1'')]\<rparr>"

definition calm_reply :: jsval where
  "calm_reply =
     JObj [(''stress_level'', JStr ''calm''),
           (''probabilities'', JObj [(''calm'', JNum 0.9), (''stressed'', JNum 0.1)])]"

definition refused :: axios_error where
  "refused = \<lparr>err_message = ''connect ECONNREFUSED'', err_response = None\<rparr>"

text \<open>Both services answer; the store is configured.\<close>

definition calm_env :: env where
  "calm_env =
     \<lparr>axios = (\<lambda>c. if is_prediction_call c then Resolved calm_reply else Resolved (JObj [])),
      now_iso = ''2025-01-01T00:00:00.000Z'',
      FIREBASE_API_KEY = JStr ''key'', FIREBASE_PROJECT_ID = JStr ''aura''\<rparr>"

text \<open>The prediction service answers; every call to the store is refused.\<close>

definition store_down_env :: env where
  "store_down_env =
     \<lparr>axios = (\<lambda>c. if is_prediction_call c then Resolved calm_reply else Rejected refused),
      now_iso = ''2025-01-01T00:00:00.000Z'',
      FIREBASE_API_KEY = JStr ''key'', FIREBASE_PROJECT_ID = JStr ''aura''\<rparr>"

text \<open>The prediction service cannot be reached.\<close>

definition predict_down_env :: env where
  "predict_down_env =
     \<lparr>axios = (\<lambda>c. if is_prediction_call c then Rejected refused else Resolved (JObj [])),
      now_iso = ''2025-01-01T00:00:00.000Z'',
      FIREBASE_API_KEY = JStr ''key'', FIREBASE_PROJECT_ID = JStr ''aura''\<rparr>"


text \<open>Both services answer; the store's credentials are not configured.\<close>

definition no_credentials_env :: env where
  "no_credentials_env =
     \<lparr>axios = (\<lambda>c. if is_prediction_call c then Resolved calm_reply else Resolved (JObj [])),
      now_iso = ''2025-01-01T00:00:00.000Z'',
      FIREBASE_API_KEY = JUndefined, FIREBASE_PROJECT_ID = JUndefined\<rparr>"

text \<open>A reading that passes validation with a \<open>userId\<close> that has no text.\<close>

definition reading_odd_user :: request where
  "reading_odd_user =
     \<lparr>req_method = ''POST'',
      req_body = JObj [(''hr'', JNum 72), (''userId'', JObj [(''toString'', JStr ''x'')])]\<rparr>"

text \<open>
  A reading whose \<open>userId\<close> is a text with a number format, in a body that has no text:
  the first log line converts the body to a number.
\<close>

definition reading_number_format :: request where
  "reading_number_format =
     \<lparr>req_method = ''POST'',
      req_body = JObj [(''hr'', JNum 72), (''userId'', JStr ''%d''), (''toString'', JNum 1)]\<rparr>"



section \<open>Auxiliary facts\<close>

lemma truthy_get_prop: "truthy (get_prop v k) \<Longrightarrow> truthy v"
  by (cases v) (auto simp: get_prop_def)

lemma outbound_calls_append:
  "outbound_calls (xs @ ys) = outbound_calls xs @ outbound_calls ys"
  by (induction xs rule: outbound_calls.induct) simp_all



lemma not_prediction_call_firestore: "\<not> is_prediction_call (firestore_call e u d)"
  by (simp add: is_prediction_call_def firestore_call_def RENDER_API_ENDPOINT_def Let_def)


lemma is_prediction_call_prediction_request: "is_prediction_call (prediction_request body)"
  by (simp add: prediction_request_def is_prediction_call_def)

lemma passes_validation_reading_u1: "passes_validation reading_u1"
  by (simp add: passes_validation_def reading_u1_def get_prop_def)

lemma log_received_stringable: "\<not> log_received_throws u b \<Longrightarrow> stringable u"
  by (simp add: log_received_throws_def split: if_splits)

lemma unstringable_log_received_throws: "\<not> stringable u \<Longrightarrow> log_received_throws u b"
  by (simp add: log_received_throws_def)

lemma logged_reading_u1:
  "\<not> log_received_throws (get_prop (req_body reading_u1) ''userId'') (req_body reading_u1)"
  by (simp add: reading_u1_def get_prop_def log_received_throws_def)

lemma passes_validation_reading_odd_user: "passes_validation reading_odd_user"
  by (simp add: passes_validation_def reading_odd_user_def get_prop_def)

lemma not_logged_reading_odd_user:
  "log_received_throws (get_prop (req_body reading_odd_user) ''userId'')
     (req_body reading_odd_user)"
  by (simp add: reading_odd_user_def get_prop_def log_received_throws_def)

lemma outbound_calls_written:
  "outbound_calls
     (case r of
        Resolved x \<Rightarrow> [Outbound c, ConsoleLog t a]
      | Rejected err \<Rightarrow> [Outbound c, ConsoleError t' (a' err)]) = [c]"
  by (simp split: axios_result.split)

lemma api_handler_unstringable_user:
  assumes "passes_validation req"
    and "log_received_throws (get_prop (req_body req) ''userId'') (req_body req)"
  shows "api_handler e req = (Inl TypeError, [])"
  using assms unfolding passes_validation_def api_handler_def by (simp add: Let_def)


lemma api_handler_resolved:
  assumes "passes_validation req"
    and "\<not> log_received_throws (get_prop (req_body req) ''userId'') (req_body req)"
    and "axios e (prediction_request (req_body req)) = Resolved data"
    and "truthy (get_prop data ''stress_level'')"
    and "stringable (get_prop data ''stress_level'')"
  shows "api_handler e req =
    (Inr \<lparr>res_status = 200, res_headers = [],
          res_body = JObj [(''success'', JBool True),
                           (''prediction'', get_prop data ''stress_level'')]\<rparr>,
     [ConsoleLog [Lit ''[Vercel] Received data for user '',
                  Hole (get_prop (req_body req) ''userId''), Lit '':''] [req_body req],
      Outbound (prediction_request (req_body req)),
      ConsoleLog [Lit ''[Vercel] API Prediction: '', Hole (get_prop data ''stress_level'')] []]
     @ (case axios e
               (firestore_call e (get_prop (req_body req) ''userId'')
                  (JObj [(''stress_level'', get_prop data ''stress_level''),
                         (''probabilities'',
                          if truthy (get_prop data ''probabilities'')
                          then get_prop data ''probabilities'' else JNull),
                         (''hr'', get_prop (req_body req) ''hr'')])) of
          Resolved r \<Rightarrow>
            [Outbound
               (firestore_call e (get_prop (req_body req) ''userId'')
                  (JObj [(''stress_level'', get_prop data ''stress_level''),
                         (''probabilities'',
                          if truthy (get_prop data ''probabilities'')
                          then get_prop data ''probabilities'' else JNull),
                         (''hr'', get_prop (req_body req) ''hr'')])),
             ConsoleLog [Lit ''[Vercel] Wrote to Firestore for user '',
                         Hole (get_prop (req_body req) ''userId'')] []]
        | Rejected err \<Rightarrow>
            [Outbound
               (firestore_call e (get_prop (req_body req) ''userId'')
                  (JObj [(''stress_level'', get_prop data ''stress_level''),
                         (''probabilities'',
                          if truthy (get_prop data ''probabilities'')
                          then get_prop data ''probabilities'' else JNull),
                         (''hr'', get_prop (req_body req) ''hr'')])),
             ConsoleError [Lit ''[Vercel] Firestore write error:'']
               [case err_response err of Some d \<Rightarrow> d | None \<Rightarrow> JStr (err_message err)]]))"
  using assms truthy_get_prop [of data "''stress_level''"]
    log_received_stringable [OF assms(2)]
  unfolding passes_validation_def prediction_request_def api_handler_def
  by (simp add: Let_def writeToFirestore_def split: axios_result.split)

lemma api_handler_unstringable_prediction:
  assumes "passes_validation req"
    and "\<not> log_received_throws (get_prop (req_body req) ''userId'') (req_body req)"
    and "axios e (prediction_request (req_body req)) = Resolved data"
    and "truthy (get_prop data ''stress_level'')"
    and "\<not> stringable (get_prop data ''stress_level'')"
  shows "api_handler e req =
    api_catch
      [ConsoleLog [Lit ''[Vercel] Received data for user '',
                   Hole (get_prop (req_body req) ''userId''), Lit '':''] [req_body req],
       Outbound (prediction_request (req_body req))]
      caught_TypeError"
  using assms truthy_get_prop [of data "''stress_level''"]
    log_received_stringable [OF assms(2)]
  unfolding passes_validation_def prediction_request_def api_handler_def
  by (simp add: Let_def)

lemma api_handler_bad_reply:
  assumes "passes_validation req"
    and "\<not> log_received_throws (get_prop (req_body req) ''userId'') (req_body req)"
    and "axios e (prediction_request (req_body req)) = Resolved data"
    and "\<not> truthy (get_prop data ''stress_level'')"
  shows "api_handler e req =
    (Inr \<lparr>res_status = 500, res_headers = [],
          res_body = JObj [(''error'', JStr ''Bad API response'')]\<rparr>,
     [ConsoleLog [Lit ''[Vercel] Received data for user '',
                  Hole (get_prop (req_body req) ''userId''), Lit '':''] [req_body req],
      Outbound (prediction_request (req_body req)),
      ConsoleError [Lit ''[Vercel] Unexpected API response:''] [data]])"
  using assms
  unfolding passes_validation_def prediction_request_def api_handler_def
  by (simp add: Let_def)


lemma api_handler_rejected:
  assumes "passes_validation req"
    and "\<not> log_received_throws (get_prop (req_body req) ''userId'') (req_body req)"
    and "axios e (prediction_request (req_body req)) = Rejected err"
  shows "api_handler e req =
    api_catch
      [ConsoleLog [Lit ''[Vercel] Received data for user '',
                   Hole (get_prop (req_body req) ''userId''), Lit '':''] [req_body req],
       Outbound (prediction_request (req_body req))]
      err"
  using assms
  unfolding passes_validation_def prediction_request_def api_handler_def
  by (simp add: Let_def)

lemma outbound_calls_api_catch:
  "outbound_calls (snd (api_catch done err)) = outbound_calls done"
  by (simp add: api_catch_def outbound_calls_append split: option.split)


lemma prediction_calls_api_handler:
  assumes "passes_validation req"
  shows "prediction_calls (snd (api_handler e req))
         = (if log_received_throws (get_prop (req_body req) ''userId'') (req_body req)
            then [] else [prediction_request (req_body req)])"
proof (cases "log_received_throws (get_prop (req_body req) ''userId'') (req_body req)")
  case True
  then show ?thesis
    by (simp add: api_handler_unstringable_user [OF assms True] prediction_calls_def)
next
  case u: False
  show ?thesis
  proof (cases "axios e (prediction_request (req_body req))")
    case (Resolved data)
    show ?thesis
    proof (cases "truthy (get_prop data ''stress_level'')")
      case t: True
      show ?thesis
      proof (cases "stringable (get_prop data ''stress_level'')")
        case True
        show ?thesis
          unfolding api_handler_resolved [OF assms u Resolved t True]
          by (simp add: u prediction_calls_def outbound_calls_append outbound_calls_written
              is_prediction_call_prediction_request not_prediction_call_firestore)
      next
        case False
        show ?thesis
          unfolding api_handler_unstringable_prediction [OF assms u Resolved t False]
          by (simp add: u prediction_calls_def outbound_calls_api_catch
              is_prediction_call_prediction_request)
      qed
    next
      case False
      show ?thesis
        unfolding api_handler_bad_reply [OF assms u Resolved False]
        by (simp add: u prediction_calls_def is_prediction_call_prediction_request)
    qed
  next
    case (Rejected err)
    show ?thesis
      unfolding api_handler_rejected [OF assms u Rejected]
      by (simp add: u prediction_calls_def outbound_calls_api_catch
          is_prediction_call_prediction_request)
  qed
qed

lemma is_store_call_upload_call: "is_store_call (upload_call e hr spo2 hrv u)"
  by (simp add: is_store_call_def upload_call_def Let_def)

lemma not_prediction_call_upload_call: "\<not> is_prediction_call (upload_call e hr spo2 hrv u)"
  by (simp add: is_prediction_call_def upload_call_def RENDER_API_ENDPOINT_def Let_def)

lemma handler_write:
  assumes "req_method req = ''POST''"
    and "\<not> nullish (req_body req)"
    and "truthy (FIREBASE_PROJECT_ID e)"
    and "truthy (FIREBASE_API_KEY e)"
    and "stringable (if get_prop (req_body req) ''userId'' = JUndefined then JStr ''user1''
                     else get_prop (req_body req) ''userId'')"
  shows "handler e req
         = (case axios e
                   (upload_call e (get_prop (req_body req) ''hr'')
                      (get_prop (req_body req) ''spo2'') (get_prop (req_body req) ''hrv'')
                      (if get_prop (req_body req) ''userId'' = JUndefined then JStr ''user1''
                       else get_prop (req_body req) ''userId'')) of
              Resolved r \<Rightarrow>
                (Inr \<lparr>res_status = 200, res_headers = [],
                      res_body = JObj [(''success'', JBool True),
                                       (''message'', JStr ''Data uploaded'')]\<rparr>,
                 [Outbound
                    (upload_call e (get_prop (req_body req) ''hr'')
                       (get_prop (req_body req) ''spo2'') (get_prop (req_body req) ''hrv'')
                       (if get_prop (req_body req) ''userId'' = JUndefined then JStr ''user1''
                        else get_prop (req_body req) ''userId''))])
            | Rejected err \<Rightarrow>
                upload_catch
                  [Outbound
                     (upload_call e (get_prop (req_body req) ''hr'')
                        (get_prop (req_body req) ''spo2'') (get_prop (req_body req) ''hrv'')
                        (if get_prop (req_body req) ''userId'' = JUndefined then JStr ''user1''
                         else get_prop (req_body req) ''userId''))]
                  err)"
  using assms by (simp add: handler_def Let_def)

lemma handler_no_write:
  assumes "\<not> (req_method req = ''POST'' \<and> \<not> nullish (req_body req)
             \<and> truthy (FIREBASE_PROJECT_ID e) \<and> truthy (FIREBASE_API_KEY e)
             \<and> stringable (if get_prop (req_body req) ''userId'' = JUndefined
                            then JStr ''user1'' else get_prop (req_body req) ''userId''))"
  shows "outbound_calls (snd (handler e req)) = []"
  using assms
  by (auto simp: handler_def Let_def upload_catch_def)

lemma outbound_calls_upload_catch:
  "outbound_calls (snd (upload_catch done err)) = outbound_calls done"
  by (simp add: upload_catch_def outbound_calls_append)

lemma fst_upload_catch:
  "fst (upload_catch done err)
   = Inr \<lparr>res_status = 500, res_headers = [],
          res_body = JObj [(''error'', JStr ''Failed to upload data'')]\<rparr>"
  by (simp add: upload_catch_def)

lemma handler_reaches_write:
  "store_writes (snd (handler e req)) \<noteq> [] \<longleftrightarrow>
     req_method req = ''POST'' \<and> \<not> nullish (req_body req)
     \<and> truthy (FIREBASE_PROJECT_ID e) \<and> truthy (FIREBASE_API_KEY e)
     \<and> stringable (if get_prop (req_body req) ''userId'' = JUndefined then JStr ''user1''
                    else get_prop (req_body req) ''userId'')"
proof
  assume "store_writes (snd (handler e req)) \<noteq> []"
  then have "outbound_calls (snd (handler e req)) \<noteq> []"
    by (auto simp: store_writes_def)
  then show "req_method req = ''POST'' \<and> \<not> nullish (req_body req)
     \<and> truthy (FIREBASE_PROJECT_ID e) \<and> truthy (FIREBASE_API_KEY e)
     \<and> stringable (if get_prop (req_body req) ''userId'' = JUndefined then JStr ''user1''
                    else get_prop (req_body req) ''userId'')"
    using handler_no_write [of req e] by blast
next
  assume c: "req_method req = ''POST'' \<and> \<not> nullish (req_body req)
     \<and> truthy (FIREBASE_PROJECT_ID e) \<and> truthy (FIREBASE_API_KEY e)
     \<and> stringable (if get_prop (req_body req) ''userId'' = JUndefined then JStr ''user1''
                    else get_prop (req_body req) ''userId'')"
  then have h: "req_method req = ''POST''" "\<not> nullish (req_body req)"
    "truthy (FIREBASE_PROJECT_ID e)" "truthy (FIREBASE_API_KEY e)"
    "stringable (if get_prop (req_body req) ''userId'' = JUndefined then JStr ''user1''
                 else get_prop (req_body req) ''userId'')"
    by simp_all
  show "store_writes (snd (handler e req)) \<noteq> []"
    unfolding handler_write [OF h]
    by (simp add: store_writes_def outbound_calls_upload_catch is_store_call_upload_call
        split: axios_result.split)
qed

lemma number_format_throws:
  "passes_validation reading_number_format
   \<and> api_handler calm_env reading_number_format = (Inl TypeError, [])"
proof -
  have v: "passes_validation reading_number_format"
    by (simp add: passes_validation_def reading_number_format_def get_prop_def)
  have l: "log_received_throws (get_prop (req_body reading_number_format) ''userId'')
             (req_body reading_number_format)"
    by (simp add: reading_number_format_def get_prop_def log_received_throws_def)
  show ?thesis
    using v api_handler_unstringable_user [OF v l] by simp
qed

section \<open>The claims\<close>

text \<open>
  C1. For the POST body \<open>{ hr: 72, hrv: 45, bt: 36.6, userId: "u1" }\<close>, when the prediction
  service answers \<open>{ stress_level: "calm", probabilities: { calm: 0.9, stressed: 0.1 } }\<close>,
  the handler of src/api/index.js responds 200 with \<open>{ success: true, prediction: "calm" }\<close>
  and issues exactly one write to the document store. Its field map holds \<open>stress_level\<close>
  as the stringValue "calm", \<open>hr\<close> as the doubleValue 72, \<open>timestamp\<close> as a timestampValue
  read from the server's clock (the text \<open>new Date().toISOString()\<close> returns), and
  \<open>probabilities\<close> as a mapValue with the doubleValues calm = 0.9 and stressed = 0.1.
\<close>

theorem calm_reading_relayed_and_stored:
  assumes "axios e
             \<lparr>call_method = POST, call_url = RENDER_API_ENDPOINT,
              call_data = JObj [(''mode'', JStr ''raw''),
                                (''raw'', JObj [(''HR'', JNum 72), (''HRV'', JNum 45),
                                                (''BT'', JNum 36.6)])]\<rparr>
           = Resolved (JObj [(''stress_level'', JStr ''calm''),
                             (''probabilities'',
                              JObj [(''calm'', JNum 0.9), (''stressed'', JNum 0.1)])])"
  shows "fst (api_handler e
                \<lparr>req_method = ''POST'',
                 req_body = JObj [(''hr'', JNum 72), (''hrv'', JNum 45), (''bt'', JNum 36.6),
                                  (''userId'', JStr ''u1'')]\<rparr>)
         = Inr \<lparr>res_status = 200, res_headers = [],
                res_body = JObj [(''success'', JBool True), (''prediction'', JStr ''calm'')]\<rparr>
       \<and> store_writes (snd (api_handler e
                \<lparr>req_method = ''POST'',
                 req_body = JObj [(''hr'', JNum 72), (''hrv'', JNum 45), (''bt'', JNum 36.6),
                                  (''userId'', JStr ''u1'')]\<rparr>))
         = [\<lparr>call_method = PATCH,
             call_url = [Lit ''https://firestore.googleapis.com/v1/'', Lit ''projects/'',
                         Hole (FIREBASE_PROJECT_ID e),
                         Lit ''/databases/(default)/documents/user_display/'',
                         Hole (JStr ''u1''), Lit ''/readings/latest'', Lit ''?key='',
                         Hole (FIREBASE_API_KEY e)],
             call_data =
               JObj [(''fields'',
                      JObj [(''stress_level'', JObj [(''stringValue'', JStr ''calm'')]),
                            (''hr'', JObj [(''doubleValue'', JNum 72)]),
                            (''timestamp'', JObj [(''timestampValue'', JStr (now_iso e))]),
                            (''probabilities'',
                             JObj [(''mapValue'',
                                    JObj [(''fields'',
                                           JObj [(''calm'', JObj [(''doubleValue'', JNum 0.9)]),
                                                 (''stressed'',
                                                  JObj [(''doubleValue'', JNum 0.1)])])])])])]\<rparr>]"
proof -
  let ?req = "\<lparr>req_method = ''POST'',
                 req_body = JObj [(''hr'', JNum 72), (''hrv'', JNum 45), (''bt'', JNum 36.6),
                                  (''userId'', JStr ''u1'')]\<rparr>"
  let ?data = "JObj [(''stress_level'', JStr ''calm''),
                     (''probabilities'', JObj [(''calm'', JNum 0.9), (''stressed'', JNum 0.1)])]"
  have v: "passes_validation ?req"
    by (simp add: passes_validation_def get_prop_def)
  have a: "axios e (prediction_request (req_body ?req)) = Resolved ?data"
    using assms by (simp add: prediction_request_def apiPayload_def get_prop_def)
  have t: "truthy (get_prop ?data ''stress_level'')"
    by (simp add: get_prop_def)
  have w: "firestore_call e (JStr ''u1'')
             (JObj [(''stress_level'', JStr ''calm''),
                    (''probabilities'', JObj [(''calm'', JNum 0.9), (''stressed'', JNum 0.1)]),
                    (''hr'', JNum 72)])
           = \<lparr>call_method = PATCH,
             call_url = [Lit ''https://firestore.googleapis.com/v1/'', Lit ''projects/'',
                         Hole (FIREBASE_PROJECT_ID e),
                         Lit ''/databases/(default)/documents/user_display/'',
                         Hole (JStr ''u1''), Lit ''/readings/latest'', Lit ''?key='',
                         Hole (FIREBASE_API_KEY e)],
             call_data =
               JObj [(''fields'',
                      JObj [(''stress_level'', JObj [(''stringValue'', JStr ''calm'')]),
                            (''hr'', JObj [(''doubleValue'', JNum 72)]),
                            (''timestamp'', JObj [(''timestampValue'', JStr (now_iso e))]),
                            (''probabilities'',
                             JObj [(''mapValue'',
                                    JObj [(''fields'',
                                           JObj [(''calm'', JObj [(''doubleValue'', JNum 0.9)]),
                                                 (''stressed'',
                                                  JObj [(''doubleValue'', JNum 0.1)])])])])])]\<rparr>"
    by (simp add: firestore_call_def firestore_fields_def get_prop_def Let_def)
  have u: "\<not> log_received_throws (get_prop (req_body ?req) ''userId'') (req_body ?req)"
    by (simp add: get_prop_def log_received_throws_def)
  have p: "stringable (get_prop ?data ''stress_level'')"
    by (simp add: get_prop_def)
  show ?thesis
    unfolding api_handler_resolved [OF v u a t p]
    by (simp add: store_writes_def outbound_calls_append outbound_calls_written
          is_store_call_def RENDER_API_ENDPOINT_def prediction_request_def get_prop_def w)
qed

theorem calm_reading_relayed_and_stored_witness:
  "axios calm_env
             \<lparr>call_method = POST, call_url = RENDER_API_ENDPOINT,
              call_data = JObj [(''mode'', JStr ''raw''),
                                (''raw'', JObj [(''HR'', JNum 72), (''HRV'', JNum 45),
                                                (''BT'', JNum 36.6)])]\<rparr>
           = Resolved (JObj [(''stress_level'', JStr ''calm''),
                             (''probabilities'',
                              JObj [(''calm'', JNum 0.9), (''stressed'', JNum 0.1)])])
   \<and> fst (api_handler calm_env reading_u1)
         = Inr \<lparr>res_status = 200, res_headers = [],
                res_body = JObj [(''success'', JBool True), (''prediction'', JStr ''calm'')]\<rparr>
   \<and> length (store_writes (snd (api_handler calm_env reading_u1))) = 1"
proof -
  have h: "axios calm_env
             \<lparr>call_method = POST, call_url = RENDER_API_ENDPOINT,
              call_data = JObj [(''mode'', JStr ''raw''),
                                (''raw'', JObj [(''HR'', JNum 72), (''HRV'', JNum 45),
                                                (''BT'', JNum 36.6)])]\<rparr>
           = Resolved (JObj [(''stress_level'', JStr ''calm''),
                             (''probabilities'',
                              JObj [(''calm'', JNum 0.9), (''stressed'', JNum 0.1)])])"
    by (simp add: calm_env_def is_prediction_call_def calm_reply_def)
  show ?thesis
    using h calm_reading_relayed_and_stored [OF h]
    by (simp add: reading_u1_def)
qed

text \<open>
  C2, as amended. In the prediction relay, for every POST request whose body can be
  destructured (it is neither \<open>undefined\<close> nor \<open>null\<close>) and whose \<open>hr\<close> or \<open>userId\<close> is missing
  or falsy, the handler responds 400 with the error body
  \<open>{ error: "Missing required fields: hr, userId" }\<close> and makes no outbound call, neither
  to the prediction service nor to the document store.
\<close>

theorem missing_required_fields_rejected:
  assumes "req_method req = ''POST''"
    and "\<not> nullish (req_body req)"
    and "\<not> truthy (get_prop (req_body req) ''hr'')
         \<or> \<not> truthy (get_prop (req_body req) ''userId'')"
  shows "fst (api_handler e req)
         = Inr \<lparr>res_status = 400, res_headers = [],
                res_body = JObj [(''error'', JStr ''Missing required fields: hr, userId'')]\<rparr>
       \<and> outbound_calls (snd (api_handler e req)) = []"
  using assms by (auto simp: api_handler_def Let_def)

theorem missing_required_fields_rejected_witness:
  "\<not> nullish (JObj [(''hrv'', JNum 45), (''userId'', JStr ''u1'')])
   \<and> get_prop (JObj [(''hrv'', JNum 45), (''userId'', JStr ''u1'')]) ''hr'' = JUndefined
   \<and> fst (api_handler calm_env
        \<lparr>req_method = ''POST'', req_body = JObj [(''hrv'', JNum 45), (''userId'', JStr ''u1'')]\<rparr>)
     = Inr \<lparr>res_status = 400, res_headers = [],
            res_body = JObj [(''error'', JStr ''Missing required fields: hr, userId'')]\<rparr>
   \<and> outbound_calls (snd (api_handler calm_env
        \<lparr>req_method = ''POST'', req_body = JObj [(''hrv'', JNum 45), (''userId'', JStr ''u1'')]\<rparr>))
     = []"
  using missing_required_fields_rejected
    [of "\<lparr>req_method = ''POST'', req_body = JObj [(''hrv'', JNum 45), (''userId'', JStr ''u1'')]\<rparr>"
        calm_env]
  by (simp add: get_prop_def)

text \<open>
  C2 as stated, for every request, does not hold. A GET request without \<open>hr\<close> is answered
  405 by the method check, which comes first. A POST request whose body is \<open>undefined\<close>
  makes the destructuring throw. The raw upload (src/unnamed/part_001) has no check of
  the fields at all: \<open>userId\<close> defaults to \<open>"user1"\<close>, \<open>hr\<close> is stored as it is, and a POST with
  an empty body is written to the document store and answered 200.
\<close>

theorem missing_fields_not_always_400:
  "\<not> truthy (get_prop (JObj []) ''hr'')
   \<and> fst (api_handler calm_env \<lparr>req_method = ''GET'', req_body = JObj []\<rparr>)
     = Inr \<lparr>res_status = 405, res_headers = [(''Allow'', JArr [JStr ''POST''])],
            res_body = JStr ''Method Not Allowed''\<rparr>
   \<and> fst (api_handler calm_env \<lparr>req_method = ''POST'', req_body = JUndefined\<rparr>) = Inl TypeError
   \<and> fst (handler calm_env \<lparr>req_method = ''POST'', req_body = JObj []\<rparr>)
     = Inr \<lparr>res_status = 200, res_headers = [],
            res_body = JObj [(''success'', JBool True), (''message'', JStr ''Data uploaded'')]\<rparr>
   \<and> length (store_writes (snd (handler calm_env \<lparr>req_method = ''POST'', req_body = JObj []\<rparr>)))
     = 1"
  by (simp add: api_handler_def handler_def upload_call_def get_prop_def calm_env_def Let_def
      is_prediction_call_def RENDER_API_ENDPOINT_def store_writes_def is_store_call_def)










text \<open>
  C6, as amended. For every request whose method is not POST, the prediction relay
  (src/api/index.js, src/index.js) responds 405 with the header \<open>Allow\<close> set to \<open>["POST"]\<close>,
  which goes out as \<open>Allow: POST\<close>; the raw upload (src/unnamed/part_001) responds 405 and
  sets no header. In all of them the result is the same for every body, also for one that
  could not be destructured: the body is not read.
\<close>

theorem non_post_rejected:
  assumes "req_method req \<noteq> ''POST''"
  shows "api_handler e req
         = (Inr \<lparr>res_status = 405, res_headers = [(''Allow'', JArr [JStr ''POST''])],
                 res_body = JStr ''Method Not Allowed''\<rparr>, [])
       \<and> index_handler e req
         = (Inr \<lparr>res_status = 405, res_headers = [(''Allow'', JArr [JStr ''POST''])],
                 res_body = JStr ''Method Not Allowed''\<rparr>, [])
       \<and> handler e req
         = (Inr \<lparr>res_status = 405, res_headers = [],
                 res_body = JObj [(''message'', JStr ''Method Not Allowed'')]\<rparr>, [])
       \<and> api_handler e (req\<lparr>req_body := b\<rparr>) = api_handler e req
       \<and> index_handler e (req\<lparr>req_body := b\<rparr>) = index_handler e req
       \<and> handler e (req\<lparr>req_body := b\<rparr>) = handler e req"
  using assms by (simp add: api_handler_def index_handler_def handler_def)

theorem non_post_rejected_witness:
  "api_handler calm_env \<lparr>req_method = ''GET'', req_body = JUndefined\<rparr>
     = (Inr \<lparr>res_status = 405, res_headers = [(''Allow'', JArr [JStr ''POST''])],
             res_body = JStr ''Method Not Allowed''\<rparr>, [])
   \<and> index_handler calm_env \<lparr>req_method = ''GET'', req_body = JUndefined\<rparr>
     = (Inr \<lparr>res_status = 405, res_headers = [(''Allow'', JArr [JStr ''POST''])],
             res_body = JStr ''Method Not Allowed''\<rparr>, [])
   \<and> handler calm_env \<lparr>req_method = ''GET'', req_body = JUndefined\<rparr>
     = (Inr \<lparr>res_status = 405, res_headers = [],
             res_body = JObj [(''message'', JStr ''Method Not Allowed'')]\<rparr>, [])"
  using non_post_rejected [of "\<lparr>req_method = ''GET'', req_body = JUndefined\<rparr>" calm_env]
  by simp

text \<open>
  C6 as stated does not hold of the raw upload: it answers a GET request with 405 and the
  body \<open>{ message: "Method Not Allowed" }\<close>, and never sets the \<open>Allow\<close> header.
\<close>

theorem raw_upload_405_without_allow:
  "fst (handler calm_env \<lparr>req_method = ''GET'', req_body = JObj [(''hr'', JNum 72)]\<rparr>)
     = Inr \<lparr>res_status = 405, res_headers = [],
            res_body = JObj [(''message'', JStr ''Method Not Allowed'')]\<rparr>"
  by (simp add: handler_def)

text \<open>
  C7, as amended. In the raw upload (src/unnamed/part_001), for every POST request whose
  body can be destructured, when \<open>FIREBASE_API_KEY\<close> or \<open>FIREBASE_PROJECT_ID\<close> is absent (or
  empty) the handler responds 500 with \<open>{ error: "Firebase credentials missing" }\<close> and no
  outbound call is made.
\<close>

theorem missing_credentials_fail_fast:
  assumes "req_method req = ''POST''"
    and "\<not> nullish (req_body req)"
    and "\<not> truthy (FIREBASE_API_KEY e) \<or> \<not> truthy (FIREBASE_PROJECT_ID e)"
  shows "fst (handler e req)
         = Inr \<lparr>res_status = 500, res_headers = [],
                res_body = JObj [(''error'', JStr ''Firebase credentials missing'')]\<rparr>
       \<and> outbound_calls (snd (handler e req)) = []"
  using assms by (auto simp: handler_def Let_def)

theorem missing_credentials_fail_fast_witness:
  "\<not> truthy (FIREBASE_API_KEY no_credentials_env)
   \<and> fst (handler no_credentials_env reading_u1)
     = Inr \<lparr>res_status = 500, res_headers = [],
            res_body = JObj [(''error'', JStr ''Firebase credentials missing'')]\<rparr>
   \<and> outbound_calls (snd (handler no_credentials_env reading_u1)) = []"
  using missing_credentials_fail_fast [of reading_u1 no_credentials_env]
  by (simp add: reading_u1_def no_credentials_env_def)

text \<open>
  C7 as stated, for every request and handler, does not hold. The raw upload answers a
  GET request 405 whatever the credentials. The prediction relay never checks the
  credentials: without them it still calls the prediction service, then the document
  store with \<open>undefined\<close> in the place of the project and of the key, and responds 200.
\<close>

theorem relay_runs_without_credentials:
  "fst (handler no_credentials_env \<lparr>req_method = ''GET'', req_body = JObj []\<rparr>)
     = Inr \<lparr>res_status = 405, res_headers = [],
            res_body = JObj [(''message'', JStr ''Method Not Allowed'')]\<rparr>
   \<and> \<not> truthy (FIREBASE_API_KEY no_credentials_env)
   \<and> \<not> truthy (FIREBASE_PROJECT_ID no_credentials_env)
   \<and> fst (api_handler no_credentials_env reading_u1)
     = Inr \<lparr>res_status = 200, res_headers = [],
            res_body = JObj [(''success'', JBool True), (''prediction'', JStr ''calm'')]\<rparr>
   \<and> map call_url (outbound_calls (snd (api_handler no_credentials_env reading_u1)))
     = [RENDER_API_ENDPOINT,
        [Lit ''https://firestore.googleapis.com/v1/'', Lit ''projects/'', Hole JUndefined,
         Lit ''/databases/(default)/documents/user_display/'', Hole (JStr ''u1''),
         Lit ''/readings/latest'', Lit ''?key='', Hole JUndefined]]"
proof -
  have a: "axios no_credentials_env (prediction_request (req_body reading_u1))
           = Resolved calm_reply"
    by (simp add: no_credentials_env_def is_prediction_call_prediction_request)
  have t: "truthy (get_prop calm_reply ''stress_level'')"
    by (simp add: calm_reply_def get_prop_def)
  have p: "stringable (get_prop calm_reply ''stress_level'')"
    by (simp add: calm_reply_def get_prop_def)
  show ?thesis
    unfolding api_handler_resolved
      [OF passes_validation_reading_u1 logged_reading_u1 a t p]
    by (simp add: outbound_calls_append outbound_calls_written firestore_call_def
        Let_def prediction_request_def no_credentials_env_def reading_u1_def get_prop_def
        calm_reply_def handler_def)
qed

text \<open>
  C8, as amended. For every request that passes validation and whose first log line is
  written, the relay sends the prediction service exactly one request,
  \<open>{ mode: "raw", raw: { HR: hr, HRV: hrv, BT: bt } }\<close>, each field being the body's value as
  it came. A body without \<open>hrv\<close> or \<open>bt\<close> gives \<open>undefined\<close> there, not zero. The request
  depends on the body alone: any two environments see the same one.
\<close>

theorem prediction_request_verbatim:
  assumes "passes_validation req"
    and "\<not> log_received_throws (get_prop (req_body req) ''userId'') (req_body req)"
  shows "prediction_calls (snd (api_handler e req))
         = [\<lparr>call_method = POST, call_url = RENDER_API_ENDPOINT,
             call_data =
               JObj [(''mode'', JStr ''raw''),
                     (''raw'', JObj [(''HR'', get_prop (req_body req) ''hr''),
                                     (''HRV'', get_prop (req_body req) ''hrv''),
                                     (''BT'', get_prop (req_body req) ''bt'')])]\<rparr>]
       \<and> (map_of (own_entries (req_body req)) ''hrv'' = None
            \<longrightarrow> get_prop (req_body req) ''hrv'' = JUndefined)
       \<and> (map_of (own_entries (req_body req)) ''bt'' = None
            \<longrightarrow> get_prop (req_body req) ''bt'' = JUndefined)
       \<and> prediction_calls (snd (api_handler e' req)) = prediction_calls (snd (api_handler e req))"
  using assms(2)
  by (simp add: prediction_calls_api_handler [OF assms(1)] prediction_request_def apiPayload_def
      get_prop_def)

theorem prediction_request_verbatim_witness:
  "passes_validation \<lparr>req_method = ''POST'', req_body = JObj [(''hr'', JNum 72), (''userId'', JStr ''u1'')]\<rparr>
   \<and> prediction_calls
        (snd (api_handler calm_env
           \<lparr>req_method = ''POST'', req_body = JObj [(''hr'', JNum 72), (''userId'', JStr ''u1'')]\<rparr>))
     = [\<lparr>call_method = POST, call_url = RENDER_API_ENDPOINT,
         call_data =
           JObj [(''mode'', JStr ''raw''),
                 (''raw'', JObj [(''HR'', JNum 72), (''HRV'', JUndefined),
                                 (''BT'', JUndefined)])]\<rparr>]
   \<and> prediction_calls
        (snd (api_handler predict_down_env
           \<lparr>req_method = ''POST'', req_body = JObj [(''hr'', JNum 72), (''userId'', JStr ''u1'')]\<rparr>))
     = prediction_calls
        (snd (api_handler calm_env
           \<lparr>req_method = ''POST'', req_body = JObj [(''hr'', JNum 72), (''userId'', JStr ''u1'')]\<rparr>))"
proof -
  have v: "passes_validation
             \<lparr>req_method = ''POST'', req_body = JObj [(''hr'', JNum 72), (''userId'', JStr ''u1'')]\<rparr>"
    by (simp add: passes_validation_def get_prop_def)
  have l: "\<not> log_received_throws
               (get_prop (req_body \<lparr>req_method = ''POST'',
                   req_body = JObj [(''hr'', JNum 72), (''userId'', JStr ''u1'')]\<rparr>) ''userId'')
               (req_body \<lparr>req_method = ''POST'',
                   req_body = JObj [(''hr'', JNum 72), (''userId'', JStr ''u1'')]\<rparr>)"
    by (simp add: get_prop_def log_received_throws_def)
  show ?thesis
    using v prediction_request_verbatim [OF v l, of calm_env predict_down_env]
    by (simp add: get_prop_def)
qed

text \<open>
  C8 as stated, for every validated reading, does not hold: for a reading that passes
  validation with a \<open>userId\<close> that is an object with a \<open>toString\<close> entry, the first log
  line throws before the payload is built, and no request is sent to the prediction
  service.
\<close>

theorem no_prediction_request_for_unconvertible_userId:
  "passes_validation reading_odd_user
   \<and> api_handler calm_env reading_odd_user = (Inl TypeError, [])
   \<and> prediction_calls (snd (api_handler calm_env reading_odd_user)) = []"
  using passes_validation_reading_odd_user
    api_handler_unstringable_user
      [OF passes_validation_reading_odd_user not_logged_reading_odd_user, of calm_env]
  by (simp add: prediction_calls_def)




text \<open>
  C10. In the raw upload, for every request that reaches the write to the document
  store (by \<open>handler_reaches_write\<close>: a POST with a body that can be destructured, both
  credentials set, and a \<open>userId\<close> that has a text for the document path), exactly one
  outbound call is made, to the document store, and none to the prediction service. When
  that call is rejected the handler responds 500 with \<open>{ error: "Failed to upload data" }\<close>;
  when it resolves, 200 with \<open>{ success: true, message: "Data uploaded" }\<close>.
\<close>

theorem raw_upload_surfaces_store_failure:
  assumes "store_writes (snd (handler e req)) \<noteq> []"
  shows "\<exists>c. outbound_calls (snd (handler e req)) = [c]
           \<and> is_store_call c
           \<and> prediction_calls (snd (handler e req)) = []
           \<and> fst (handler e req)
             = (case axios e c of
                  Rejected err \<Rightarrow>
                    Inr \<lparr>res_status = 500, res_headers = [],
                         res_body = JObj [(''error'', JStr ''Failed to upload data'')]\<rparr>
                | Resolved r \<Rightarrow>
                    Inr \<lparr>res_status = 200, res_headers = [],
                         res_body = JObj [(''success'', JBool True),
                                          (''message'', JStr ''Data uploaded'')]\<rparr>)"
proof -
  from assms have h: "req_method req = ''POST''" "\<not> nullish (req_body req)"
    "truthy (FIREBASE_PROJECT_ID e)" "truthy (FIREBASE_API_KEY e)"
    "stringable (if get_prop (req_body req) ''userId'' = JUndefined then JStr ''user1''
                 else get_prop (req_body req) ''userId'')"
    by (simp_all add: handler_reaches_write)
  show ?thesis
    unfolding handler_write [OF h]
    by (simp add: prediction_calls_def outbound_calls_upload_catch fst_upload_catch
        is_store_call_upload_call not_prediction_call_upload_call split: axios_result.split)
qed

theorem raw_upload_surfaces_store_failure_witness:
  "store_writes (snd (handler store_down_env reading_u1)) \<noteq> []
   \<and> (\<exists>c. outbound_calls (snd (handler store_down_env reading_u1)) = [c]
           \<and> is_store_call c
           \<and> prediction_calls (snd (handler store_down_env reading_u1)) = []
           \<and> axios store_down_env c = Rejected refused
           \<and> fst (handler store_down_env reading_u1)
             = Inr \<lparr>res_status = 500, res_headers = [],
                    res_body = JObj [(''error'', JStr ''Failed to upload data'')]\<rparr>)"
proof -
  have w: "store_writes (snd (handler store_down_env reading_u1)) \<noteq> []"
    by (simp add: handler_reaches_write store_down_env_def reading_u1_def get_prop_def)
  obtain c where c: "outbound_calls (snd (handler store_down_env reading_u1)) = [c]"
      "is_store_call c" "prediction_calls (snd (handler store_down_env reading_u1)) = []"
      "fst (handler store_down_env reading_u1)
       = (case axios store_down_env c of
            Rejected err \<Rightarrow>
              Inr \<lparr>res_status = 500, res_headers = [],
                   res_body = JObj [(''error'', JStr ''Failed to upload data'')]\<rparr>
          | Resolved r \<Rightarrow>
              Inr \<lparr>res_status = 200, res_headers = [],
                   res_body = JObj [(''success'', JBool True),
                                    (''message'', JStr ''Data uploaded'')]\<rparr>)"
    using raw_upload_surfaces_store_failure [OF w] by blast
  have "\<not> is_prediction_call c"
    using c(2) by (auto simp: is_store_call_def is_prediction_call_def RENDER_API_ENDPOINT_def
        split: list.splits part.splits)
  then have r: "axios store_down_env c = Rejected refused"
    by (simp add: store_down_env_def)
  show ?thesis
    using w c r by auto
qed

end
